theory Spec2Isabelle
  imports Main "HOL-Library.Word"
begin

section \<open>Data model (models/tracking.go, models/email.go)\<close>

text \<open>
  Instants of \<^verbatim>\<open>time.Time\<close> are integers (nanoseconds on one clock of the process):
  \<^verbatim>\<open>Before\<close> is \<open><\<close> and \<^verbatim>\<open>After\<close> is \<open>>\<close>.
  A \<^verbatim>\<open>time.Duration\<close> is an \<^verbatim>\<open>int64\<close> count of nanoseconds. The constant
  \<^verbatim>\<open>10 * time.Second\<close> is written as the integer it denotes. The horizon of the
  sweep, which the code negates, is the 64-bit value itself: the negation wraps as Go's
  does, so that the negation of the least value \<open>MinInt64\<close> is that value again, and
  \<^verbatim>\<open>t.Add(d)\<close> moves the instant by the signed value of \<open>d\<close>.
  The registry stores pointers to values that no function of the repository mutates
  after their creation, so the maps hold the values themselves. The one caller of
  \<^verbatim>\<open>RegisterEmail\<close> passes a fresh struct, never nil, and \<^verbatim>\<open>NewServer\<close> gives the
  tracker a sender, so no nil pointer is followed.
  Several structs share field names; the unqualified name is the field of
  \<open>TrackingEvent\<close>, the others are written qualified (\<open>Email.ID\<close>).
\<close>

type_synonym Time = int
type_synonym Duration = int
type_synonym byte = "8 word"
type_synonym int64 = "64 word"

definition MinInt64 :: int64 where
  "MinInt64 = - 9223372036854775808"

definition Time_Add :: "Time \<Rightarrow> int64 \<Rightarrow> Time" where
  "Time_Add t d = t + sint d"

definition Second :: Duration where
  "Second = 1000000000"

record Email =
  ID :: string
  From :: string
  To :: string
  Subject :: string
  Body :: string
  TrackingID :: string
  SentAt :: Time
  NotifyOnOpen :: bool
  NotifyEmail :: string

record GeoLocation =
  IP :: string
  Country :: string
  City :: string
  Region :: string
  ISP :: string
  Lat :: string
  Lon :: string

record DeviceInfo =
  DeviceType :: string
  Browser :: string
  OS :: string

record TrackingEvent =
  ID :: string
  TrackingID :: string
  BaseURL :: string
  EmailID :: string
  IPAddress :: string
  UserAgent :: string
  Country :: string
  City :: string
  Region :: string
  ISP :: string
  OpenedAt :: Time
  DeviceType :: string
  Browser :: string
  OS :: string

section \<open>The registry (tracker/tracker.go)\<close>

text \<open>
  \<^verbatim>\<open>Tracker\<close> holds two Go maps keyed by the tracking identifier. A key of
  \<open>trackingEvents\<close> can be present with an empty slice, which is not the same map
  state as an absent key.
\<close>

record Tracker =
  trackingData :: "string \<rightharpoonup> Email"
  trackingEvents :: "string \<rightharpoonup> TrackingEvent list"

definition NewTracker :: Tracker where
  "NewTracker = \<lparr>trackingData = Map.empty, trackingEvents = Map.empty\<rparr>"

definition RegisterEmail :: "Email \<Rightarrow> string \<Rightarrow> Tracker \<Rightarrow> Tracker" where
  "RegisterEmail email trackingID t =
     t\<lparr>trackingData := (trackingData t)(trackingID \<mapsto> email)\<rparr>"

text \<open>\<^verbatim>\<open>GetTrackingStats\<close> returns a pointer; \<open>None\<close> is the nil pointer.\<close>

definition GetTrackingStats :: "Tracker \<Rightarrow> string \<Rightarrow> TrackingEvent option" where
  "GetTrackingStats t trackingID =
     (case trackingEvents t trackingID of
        Some events \<Rightarrow>
          if length events > 0 then Some (events ! (length events - 1)) else None
      | None \<Rightarrow> None)"

text \<open>\<^verbatim>\<open>GetAllTrackingEvents\<close> returns a slice; the nil slice is the empty list.\<close>

definition GetAllTrackingEvents :: "Tracker \<Rightarrow> string \<Rightarrow> TrackingEvent list" where
  "GetAllTrackingEvents t trackingID =
     (case trackingEvents t trackingID of
        Some events \<Rightarrow> events
      | None \<Rightarrow> [])"

subsection \<open>The retention sweep\<close>

text \<open>
  \<^verbatim>\<open>CleanupOldEntries\<close> ranges over each map once. Go leaves the order of a map range
  open, so each loop takes the order in which the keys are visited as a list; deleting
  the entry under the key being visited, or assigning to it, is allowed during a range.
  The instant \<open>now\<close> is what \<^verbatim>\<open>time.Now()\<close> returns, and the cutoff is
  \<^verbatim>\<open>time.Now().Add(-maxAge)\<close>.
\<close>

definition cleanup_email_step :: "Time \<Rightarrow> string \<Rightarrow> Tracker \<Rightarrow> Tracker" where
  "cleanup_email_step cutoff ident t =
     (case trackingData t ident of
        None \<Rightarrow> t
      | Some email \<Rightarrow>
          if SentAt email < cutoff
          then t\<lparr>trackingData := (trackingData t)(ident := None),
                 trackingEvents := (trackingEvents t)(ident := None)\<rparr>
          else t)"

fun recent_events :: "Time \<Rightarrow> TrackingEvent list \<Rightarrow> TrackingEvent list \<Rightarrow> TrackingEvent list" where
  "recent_events cutoff recentEvents [] = recentEvents"
| "recent_events cutoff recentEvents (event # events) =
     (if OpenedAt event > cutoff
      then recent_events cutoff (recentEvents @ [event]) events
      else recent_events cutoff recentEvents events)"

definition cleanup_events_step :: "Time \<Rightarrow> string \<Rightarrow> Tracker \<Rightarrow> Tracker" where
  "cleanup_events_step cutoff trackingID t =
     (case trackingEvents t trackingID of
        None \<Rightarrow> t
      | Some events \<Rightarrow>
          t\<lparr>trackingEvents := (trackingEvents t)(trackingID \<mapsto> recent_events cutoff [] events)\<rparr>)"

definition CleanupOldEntries ::
  "string list \<Rightarrow> string list \<Rightarrow> Time \<Rightarrow> int64 \<Rightarrow> Tracker \<Rightarrow> Tracker" where
  "CleanupOldEntries order1 order2 now maxAge t =
     (let cutoff = Time_Add now (- maxAge);
          t1 = fold (cleanup_email_step cutoff) order1 t
      in fold (cleanup_events_step cutoff) order2 t1)"

text \<open>A message is expired at a cutoff when it is registered and was sent before it.\<close>

definition expired :: "Time \<Rightarrow> Tracker \<Rightarrow> string \<Rightarrow> bool" where
  "expired cutoff t i =
     (case trackingData t i of Some email \<Rightarrow> SentAt email < cutoff | None \<Rightarrow> False)"

section \<open>Identifier generation\<close>

text \<open>
  \<^verbatim>\<open>crypto/rand.Read(b)\<close> is the entropy source. Its outcome in one call is an input of
  the model: it fails, or it delivers bytes. The buffer \<open>b\<close> starts as \<open>n\<close> zero bytes
  (\<^verbatim>\<open>make([]byte, n)\<close>) and holds what the source delivered, cut to its length.
\<close>

datatype rand_outcome = RandFailed | RandBytes "byte list"

datatype rand_error = EntropyUnavailable

definition rand_Read :: "nat \<Rightarrow> rand_outcome \<Rightarrow> byte list \<times> rand_error option" where
  "rand_Read n outcome =
     (case outcome of
        RandFailed \<Rightarrow> (replicate n 0, Some EntropyUnavailable)
      | RandBytes bs \<Rightarrow> (take n (bs @ replicate n 0), None))"

text \<open>
  \<^verbatim>\<open>base64.URLEncoding\<close> of the Go standard library: the alphabet of RFC 4648,
  section 5, with \<open>=\<close> as padding character. \<open>EncodeToString\<close> follows
  \<^verbatim>\<open>Encoding.Encode\<close>: three bytes give a 24-bit value and four characters, a rest of
  one or two bytes is padded.
\<close>

definition encodeURL :: string where
  "encodeURL = ''ABCDEFGHIJKLMNOPQRSTUVWXYZabcdefghijklmnopqrstuvwxyz0123456789-_''"

definition StdPadding :: char where
  "StdPadding = CHR ''=''"

definition enc6 :: "nat \<Rightarrow> char" where
  "enc6 v = encodeURL ! (v mod 64)"

fun EncodeToString :: "byte list \<Rightarrow> string" where
  "EncodeToString [] = []"
| "EncodeToString [b0] =
     (let val = unat b0 * 65536
      in [enc6 (val div 262144), enc6 (val div 4096), StdPadding, StdPadding])"
| "EncodeToString [b0, b1] =
     (let val = unat b0 * 65536 + unat b1 * 256
      in [enc6 (val div 262144), enc6 (val div 4096), enc6 (val div 64), StdPadding])"
| "EncodeToString (b0 # b1 # b2 # src) =
     (let val = unat b0 * 65536 + unat b1 * 256 + unat b2
      in [enc6 (val div 262144), enc6 (val div 4096), enc6 (val div 64), enc6 val]
         @ EncodeToString src)"

text \<open>
  \<^verbatim>\<open>GenerateTrackingID\<close> returns the pair \<^verbatim>\<open>(string, error)\<close>; on a failed read it is
  the empty string with the error of the source.
\<close>

definition GenerateTrackingID :: "rand_outcome \<Rightarrow> string \<times> rand_error option" where
  "GenerateTrackingID outcome =
     (case rand_Read 32 outcome of
        (b, Some err) \<Rightarrow> ([], Some err)
      | (b, None) \<Rightarrow> (EncodeToString b, None))"

text \<open>
  \<^verbatim>\<open>utils.GenerateUUID\<close> ignores the error of the read and prints five slices of the
  16-byte buffer with \<^verbatim>\<open>%x\<close>: two lower-case hexadecimal digits for each byte.
\<close>

definition hex_digits :: string where
  "hex_digits = ''0123456789abcdef''"

definition hex_byte :: "byte \<Rightarrow> string" where
  "hex_byte b = [hex_digits ! (unat b div 16), hex_digits ! (unat b mod 16)]"

definition hex_bytes :: "byte list \<Rightarrow> string" where
  "hex_bytes bs = concat (map hex_byte bs)"

definition GenerateUUID :: "rand_outcome \<Rightarrow> string" where
  "GenerateUUID outcome =
     (let b = fst (rand_Read 16 outcome)
      in hex_bytes (take 4 b) @ ''-'' @ hex_bytes (take 2 (drop 4 b)) @ ''-'' @
         hex_bytes (take 2 (drop 6 b)) @ ''-'' @ hex_bytes (take 2 (drop 8 b)) @ ''-'' @
         hex_bytes (drop 10 b))"

section \<open>Request enrichment (utils)\<close>

text \<open>
  The functions of the Go standard library that the enrichment calls are parameters:
  \<^verbatim>\<open>net.ParseIP\<close> (\<open>None\<close> is the nil address), the methods of \<^verbatim>\<open>net.IP\<close>,
  \<^verbatim>\<open>net.SplitHostPort\<close> (\<open>None\<close> when it returns an error),
  \<^verbatim>\<open>strings.TrimSpace\<close> and \<^verbatim>\<open>strings.ToLower\<close>.
\<close>

record 'ip stdlib =
  ParseIP :: "string \<Rightarrow> 'ip option"
  IP_String :: "'ip \<Rightarrow> string"
  IsPrivate :: "'ip \<Rightarrow> bool"
  IsLoopback :: "'ip \<Rightarrow> bool"
  IsMulticast :: "'ip \<Rightarrow> bool"
  SplitHostPort :: "string \<Rightarrow> (string \<times> string) option"
  TrimSpace :: "string \<Rightarrow> string"
  ToLower :: "string \<Rightarrow> string"

text \<open>
  Of \<^verbatim>\<open>http.Request\<close> the enrichment reads the header and the peer address. The
  header is Go's \<^verbatim>\<open>map[string][]string\<close>; \<^verbatim>\<open>Header.Get\<close> gives the first value
  under a name, or the empty string. Header names are matched in their canonical form
  in Go; here a name is the key as the source spells it.
\<close>

record Request =
  Header :: "string \<rightharpoonup> string list"
  RemoteAddr :: string

definition Header_Get :: "Request \<Rightarrow> string \<Rightarrow> string" where
  "Header_Get r key =
     (case Header r key of
        Some (v # vs) \<Rightarrow> v
      | _ \<Rightarrow> [])"

definition Request_UserAgent :: "Request \<Rightarrow> string" where
  "Request_UserAgent r = Header_Get r ''User-Agent''"

text \<open>\<^verbatim>\<open>strings.Split(s, sep)\<close> for a separator of one byte.\<close>

fun Split :: "string \<Rightarrow> char \<Rightarrow> string list" where
  "Split [] sep = [[]]"
| "Split (c # cs) sep =
     (if c = sep then [] # Split cs sep
      else (case Split cs sep of
              [] \<Rightarrow> [[c]]
            | p # ps \<Rightarrow> (c # p) # ps))"

text \<open>
  The loop over the forwarded-for chain runs from the last part to the first; it is
  given the parts in that order.
\<close>

fun forwarded_scan :: "'ip stdlib \<Rightarrow> string list \<Rightarrow> string option" where
  "forwarded_scan lib [] = None"
| "forwarded_scan lib (part # parts) =
     (let ipStr = TrimSpace lib part
      in case ParseIP lib ipStr of
           Some ip \<Rightarrow>
             if \<not> IsPrivate lib ip \<and> \<not> IsLoopback lib ip \<and> \<not> IsMulticast lib ip
             then Some ipStr
             else forwarded_scan lib parts
         | None \<Rightarrow> forwarded_scan lib parts)"

definition GetClientIP :: "'ip stdlib \<Rightarrow> Request \<Rightarrow> string" where
  "GetClientIP lib r =
     (let cf = Header_Get r ''CF-Connecting-IP'' in
      case (if cf \<noteq> [] then ParseIP lib cf else None) of
        Some ip \<Rightarrow> IP_String lib ip
      | None \<Rightarrow>
     (let real = Header_Get r ''X-Real-IP'' in
      case (if real \<noteq> [] then ParseIP lib real else None) of
        Some ip \<Rightarrow> IP_String lib ip
      | None \<Rightarrow>
     (let xff = Header_Get r ''X-Forwarded-For'' in
      case (if xff \<noteq> [] then forwarded_scan lib (rev (Split xff (CHR '',''))) else None) of
        Some ipStr \<Rightarrow> ipStr
      | None \<Rightarrow>
     (case SplitHostPort lib (RemoteAddr r) of
        Some (host, port) \<Rightarrow> host
      | None \<Rightarrow> RemoteAddr r))))"

subsection \<open>Geography lookup\<close>

text \<open>
  The lookup is a GET on ip-api.com and the decoding of its JSON body. What the network
  answers is an input of the model: \<open>http_Get\<close> is \<^verbatim>\<open>client.Get\<close> followed by
  \<^verbatim>\<open>io.ReadAll\<close> (the body, or the error of either), \<open>json_Unmarshal\<close> is the decoding
  into the anonymous struct \<open>data\<close>. The two \<^verbatim>\<open>float64\<close> fields are carried as their
  \<^verbatim>\<open>%f\<close> text; no event field depends on them.
\<close>

datatype geo_error =
  TransportError | ReadError | MalformedPayload | NonSuccessStatus | CouldNotDetermine

record ipapi_data =
  data_Status :: string
  data_Country :: string
  data_Region :: string
  data_City :: string
  data_ISP :: string
  data_Lat :: string
  data_Lon :: string

record geo_service =
  http_Get :: "string \<Rightarrow> geo_error + string"
  json_Unmarshal :: "string \<Rightarrow> geo_error + ipapi_data"

definition getGeoFromIPAPI :: "geo_service \<Rightarrow> string \<Rightarrow> geo_error + GeoLocation" where
  "getGeoFromIPAPI net ip =
     (let url = ''http://ip-api.com/json/'' @ ip in
      case http_Get net url of
        Inl err \<Rightarrow> Inl err
      | Inr body \<Rightarrow>
          (case json_Unmarshal net body of
             Inl err \<Rightarrow> Inl err
           | Inr data \<Rightarrow>
               if data_Status data \<noteq> ''success'' then Inl NonSuccessStatus
               else Inr \<lparr>IP = ip,
                         GeoLocation.Country = data_Country data,
                         GeoLocation.City = data_City data,
                         GeoLocation.Region = data_Region data,
                         GeoLocation.ISP = data_ISP data,
                         Lat = data_Lat data,
                         Lon = data_Lon data\<rparr>))"

text \<open>
  \<^verbatim>\<open>GetGeoLocation\<close> returns a location with every result, also beside an error: the
  fallback location has only its \<open>IP\<close> set, the other fields are Go's zero strings.
\<close>

definition GetGeoLocation :: "geo_service \<Rightarrow> string \<Rightarrow> GeoLocation \<times> geo_error option" where
  "GetGeoLocation net ip =
     (case getGeoFromIPAPI net ip of
        Inr location \<Rightarrow> (location, None)
      | Inl err \<Rightarrow>
          (\<lparr>IP = ip, GeoLocation.Country = [], GeoLocation.City = [],
            GeoLocation.Region = [], GeoLocation.ISP = [], Lat = [], Lon = []\<rparr>,
           Some CouldNotDetermine))"

subsection \<open>Device classification\<close>

fun Contains :: "string \<Rightarrow> string \<Rightarrow> bool" where
  "Contains [] substr = (substr = [])"
| "Contains (c # cs) substr = (take (length substr) (c # cs) = substr \<or> Contains cs substr)"

definition ParseUserAgent :: "'ip stdlib \<Rightarrow> string \<Rightarrow> DeviceInfo" where
  "ParseUserAgent lib userAgent =
     (let ua = ToLower lib userAgent in
      \<lparr>DeviceInfo.DeviceType =
         (if Contains ua ''mobile'' then ''Mobile''
          else if Contains ua ''tablet'' then ''Tablet''
          else ''Desktop''),
       DeviceInfo.Browser =
         (if Contains ua ''chrome'' then ''Chrome''
          else if Contains ua ''firefox'' then ''Firefox''
          else if Contains ua ''safari'' \<and> \<not> Contains ua ''chrome'' then ''Safari''
          else if Contains ua ''edge'' then ''Edge''
          else if Contains ua ''opera'' then ''Opera''
          else ''Unknown''),
       DeviceInfo.OS =
         (if Contains ua ''windows'' then ''Windows''
          else if Contains ua ''mac os'' then ''macOS''
          else if Contains ua ''linux'' then ''Linux''
          else if Contains ua ''android'' then ''Android''
          else if Contains ua ''iphone'' \<or> Contains ua ''ipad'' then ''iOS''
          else ''Unknown'')\<rparr>)"

section \<open>Notification dispatch (notification.Sender)\<close>

text \<open>
  The context handed to \<^verbatim>\<open>SendNotification\<close> is the time, in nanoseconds, after which
  its \<^verbatim>\<open>Done\<close> channel is closed. What the files and the SMTP transport do during one
  call is an input: whether the template parses and executes, and whether
  \<^verbatim>\<open>SendWithStartTLS\<close> returns, after how long and with or without an error.
  The result is the returned error (\<open>None\<close> is nil) and the time the caller was blocked
  in the \<^verbatim>\<open>select\<close>: the goroutine sends on \<open>sendErr\<close> when the transport returns, and
  the \<^verbatim>\<open>select\<close> takes whichever of \<^verbatim>\<open>ctx.Done()\<close> and \<open>sendErr\<close> is ready first.
  When both are ready at the same instant Go picks either; the model picks the context.
\<close>

type_synonym Context = nat

datatype send_error = TemplateParseFailed | TemplateExecuteFailed | CancelledByContext | DispatchFailed

datatype transport = NeverReturns | ReturnsAfter nat bool

datatype data_value = Str string | TimeFormat string Time | TimeYear Time

record smtp_world =
  template_parses :: bool
  template_executes :: bool
  SendWithStartTLS :: transport

definition Sender_SendNotification ::
  "smtp_world \<Rightarrow> Context \<Rightarrow> string list \<Rightarrow> string \<Rightarrow> (string \<times> data_value) list
   \<Rightarrow> send_error option \<times> nat" where
  "Sender_SendNotification world ctx to subject data =
     (if \<not> template_parses world then (Some TemplateParseFailed, 0)
      else if \<not> template_executes world then (Some TemplateExecuteFailed, 0)
      else (case SendWithStartTLS world of
              NeverReturns \<Rightarrow> (Some CancelledByContext, ctx)
            | ReturnsAfter d ok \<Rightarrow>
                if ctx \<le> d then (Some CancelledByContext, ctx)
                else if \<not> ok then (Some DispatchFailed, d)
                else (None, d)))"

section \<open>Recording an open (Tracker.TrackEmailOpen)\<close>

text \<open>
  The surroundings of one call: the library, the geography service, the bytes drawn for
  the event identifier, the instant \<^verbatim>\<open>time.Now()\<close> returns, and the method behind the
  \<^verbatim>\<open>NotificationSender\<close> interface of the tracker.
\<close>

record 'ip open_env =
  stdlib_of :: "'ip stdlib"
  geo_of :: geo_service
  uuid_source :: rand_outcome
  time_Now :: Time
  notificationSender ::
    "Context \<Rightarrow> string list \<Rightarrow> string \<Rightarrow> (string \<times> data_value) list \<Rightarrow> send_error option \<times> nat"

text \<open>
  Of \<^verbatim>\<open>http.ResponseWriter\<close>: the header map (\<^verbatim>\<open>Set\<close> stores one value under a name)
  and the bytes written to the body.
\<close>

record ResponseWriter =
  rw_header :: "string \<rightharpoonup> string list"
  rw_body :: "byte list"

definition Header_Set :: "string \<Rightarrow> string \<Rightarrow> ResponseWriter \<Rightarrow> ResponseWriter" where
  "Header_Set key v w = w\<lparr>rw_header := (rw_header w)(key \<mapsto> [v])\<rparr>"

definition Write :: "byte list \<Rightarrow> ResponseWriter \<Rightarrow> ResponseWriter" where
  "Write bs w = w\<lparr>rw_body := rw_body w @ bs\<rparr>"

definition gifData :: "byte list" where
  "gifData =
     [0x47, 0x49, 0x46, 0x38, 0x39, 0x61,
      0x01, 0x00, 0x01, 0x00, 0x80, 0x00,
      0x00, 0xff, 0xff, 0xff, 0x00, 0x00,
      0x00, 0x2c, 0x00, 0x00, 0x00, 0x00,
      0x01, 0x00, 0x01, 0x00, 0x00, 0x02,
      0x02, 0x44, 0x01, 0x00, 0x3b]"

text \<open>The subject starts with the four UTF-8 bytes of the envelope sign.\<close>

definition notification_subject :: "Email \<Rightarrow> string" where
  "notification_subject email =
     [CHR 0xF0, CHR 0x9F, CHR 0x93, CHR 0xA7] @ '' Email Opened: '' @ Subject email"

definition notification_data :: "Email \<Rightarrow> TrackingEvent \<Rightarrow> (string \<times> data_value) list" where
  "notification_data email event =
     [(''EmailSubject'', Str (Subject email)),
      (''Recipient'', Str (To email)),
      (''OpenedAt'', TimeFormat ''2006-01-02 15:04:05'' (OpenedAt event)),
      (''IPAddress'', Str (IPAddress event)),
      (''Location'', Str (City event @ '', '' @ Region event @ '', '' @ Country event)),
      (''Device'', Str (DeviceType event)),
      (''Browser'', Str (Browser event)),
      (''OS'', Str (OS event)),
      (''ISP'', Str (ISP event)),
      (''TrackingURL'', Str (BaseURL event @ ''/track/'' @ TrackingID event)),
      (''BaseURL'', Str (BaseURL event)),
      (''Year'', TimeYear (OpenedAt event))]"

text \<open>
  \<^verbatim>\<open>TrackEmailOpen\<close> returns nothing. Its effects are the fields of the result: the
  registry after the append, the event it stored, the error of the geography lookup and
  of the notification (both only printed), the time it was blocked in
  \<^verbatim>\<open>SendNotification\<close> before it reached the statements that write the response, and
  the response writer after them. The statements run in the order of the source.
\<close>

record open_effects =
  tracker_after :: Tracker
  stored_event :: TrackingEvent
  geo_err :: "geo_error option"
  notify_err :: "send_error option option"
  blocked_before_response :: nat
  writer_after :: ResponseWriter

definition TrackEmailOpen ::
  "'ip open_env \<Rightarrow> Tracker \<Rightarrow> ResponseWriter \<Rightarrow> Request \<Rightarrow> string \<Rightarrow> string \<Rightarrow> open_effects" where
  "TrackEmailOpen env t w r trackingID baseURL =
     (let ip = GetClientIP (stdlib_of env) r;
          userAgent = Request_UserAgent r;
          (geoInfo, err) = GetGeoLocation (geo_of env) ip;
          deviceInfo = ParseUserAgent (stdlib_of env) userAgent;
          found = trackingData t trackingID;
          emailID = (case found of Some email \<Rightarrow> Email.ID email | None \<Rightarrow> []);
          event = \<lparr>ID = GenerateUUID (uuid_source env),
                   TrackingID = trackingID,
                   BaseURL = baseURL,
                   EmailID = emailID,
                   IPAddress = ip,
                   UserAgent = userAgent,
                   Country = GeoLocation.Country geoInfo,
                   City = GeoLocation.City geoInfo,
                   Region = GeoLocation.Region geoInfo,
                   ISP = GeoLocation.ISP geoInfo,
                   OpenedAt = time_Now env,
                   DeviceType = DeviceInfo.DeviceType deviceInfo,
                   Browser = DeviceInfo.Browser deviceInfo,
                   OS = DeviceInfo.OS deviceInfo\<rparr>;
          t1 = t\<lparr>trackingEvents := (trackingEvents t)
                 (trackingID \<mapsto>
                    (case trackingEvents t trackingID of Some events \<Rightarrow> events | None \<Rightarrow> [])
                    @ [event])\<rparr>;
          (sent, blocked) =
            (case found of
               Some email \<Rightarrow>
                 if NotifyOnOpen email
                 then (let (res, d) =
                         notificationSender env (nat (10 * Second)) [NotifyEmail email]
                           (notification_subject email) (notification_data email event)
                       in (Some res, d))
                 else (None, 0)
             | None \<Rightarrow> (None, 0));
          w1 = Header_Set ''Content-Type'' ''image/gif'' w;
          w2 = Header_Set ''Cache-Control'' ''no-cache, no-store, must-revalidate'' w1;
          w3 = Header_Set ''Pragma'' ''no-cache'' w2;
          w4 = Header_Set ''Expires'' ''0'' w3;
          w5 = Write gifData w4
      in \<lparr>tracker_after = t1,
          stored_event = event,
          geo_err = err,
          notify_err = sent,
          blocked_before_response = blocked,
          writer_after = w5\<rparr>)"

section \<open>The client address in the words of its contract\<close>







section \<open>Failure of the geography lookup\<close>

text \<open>
  The lookup for an address fails when the GET or the reading of its body fails
  (network error), when the body does not decode (malformed payload), or when the
  decoded status is not \<open>success\<close>.
\<close>

definition lookup_fails :: "geo_service \<Rightarrow> string \<Rightarrow> bool" where
  "lookup_fails net ip =
     (case http_Get net (''http://ip-api.com/json/'' @ ip) of
        Inl err \<Rightarrow> True
      | Inr body \<Rightarrow>
          (case json_Unmarshal net body of
             Inl err \<Rightarrow> True
           | Inr data \<Rightarrow> data_Status data \<noteq> ''success''))"

section \<open>A concrete library and concrete registries\<close>

text \<open>
  An instance of the library parameters for evaluating the functions on concrete
  requests. It covers dotted-decimal IPv4 text, \<open>host:port\<close> without brackets and
  ASCII; on such text it computes what Go computes. An address is its four octets.
\<close>

definition digit_val :: "char \<Rightarrow> nat option" where
  "digit_val c =
     (let n = (of_char c :: nat) in if 48 \<le> n \<and> n \<le> 57 then Some (n - 48) else None)"

fun decimal :: "nat \<Rightarrow> string \<Rightarrow> nat option" where
  "decimal acc [] = Some acc"
| "decimal acc (c # cs) =
     (case digit_val c of None \<Rightarrow> None | Some d \<Rightarrow> decimal (10 * acc + d) cs)"

definition octet :: "string \<Rightarrow> nat option" where
  "octet s =
     (if s = [] \<or> length s > 3 \<or> (length s > 1 \<and> hd s = CHR ''0'') then None
      else (case decimal 0 s of
              Some n \<Rightarrow> if n \<le> 255 then Some n else None
            | None \<Rightarrow> None))"

definition ipv4_ParseIP :: "string \<Rightarrow> nat list option" where
  "ipv4_ParseIP s =
     (case map octet (Split s (CHR ''.'')) of
        [Some a, Some b, Some c, Some d] \<Rightarrow> Some [a, b, c, d]
      | _ \<Rightarrow> None)"

definition digit_char :: "nat \<Rightarrow> char" where
  "digit_char d = ''0123456789'' ! (d mod 10)"

definition octet_text :: "nat \<Rightarrow> string" where
  "octet_text n =
     (if n < 10 then [digit_char n]
      else if n < 100 then [digit_char (n div 10), digit_char n]
      else [digit_char (n div 100), digit_char (n div 10), digit_char n])"

fun ipv4_String :: "nat list \<Rightarrow> string" where
  "ipv4_String [] = []"
| "ipv4_String [a] = octet_text a"
| "ipv4_String (a # b # bs) = octet_text a @ ''.'' @ ipv4_String (b # bs)"

definition ipv4_IsPrivate :: "nat list \<Rightarrow> bool" where
  "ipv4_IsPrivate ip =
     (case ip of
        a # b # rest \<Rightarrow> a = 10 \<or> (a = 172 \<and> 16 \<le> b \<and> b \<le> 31) \<or> (a = 192 \<and> b = 168)
      | _ \<Rightarrow> False)"

definition ipv4_IsLoopback :: "nat list \<Rightarrow> bool" where
  "ipv4_IsLoopback ip = (case ip of a # rest \<Rightarrow> a = 127 | _ \<Rightarrow> False)"

definition ipv4_IsMulticast :: "nat list \<Rightarrow> bool" where
  "ipv4_IsMulticast ip = (case ip of a # rest \<Rightarrow> 224 \<le> a \<and> a \<le> 239 | _ \<Rightarrow> False)"

definition plain_SplitHostPort :: "string \<Rightarrow> (string \<times> string) option" where
  "plain_SplitHostPort s =
     (case Split s (CHR '':'') of
        [host, port] \<Rightarrow> Some (host, port)
      | _ \<Rightarrow> None)"

definition ascii_space :: "char \<Rightarrow> bool" where
  "ascii_space c = (c \<in> set [CHR '' '', CHR 0x09, CHR 0x0A, CHR 0x0B, CHR 0x0C, CHR 0x0D])"

definition ascii_TrimSpace :: "string \<Rightarrow> string" where
  "ascii_TrimSpace s = rev (dropWhile ascii_space (rev (dropWhile ascii_space s)))"

definition ascii_lower :: "char \<Rightarrow> char" where
  "ascii_lower c =
     (let n = (of_char c :: nat) in if 65 \<le> n \<and> n \<le> 90 then char_of (n + 32) else c)"

definition ipv4_lib :: "nat list stdlib" where
  "ipv4_lib =
     \<lparr>ParseIP = ipv4_ParseIP,
      IP_String = ipv4_String,
      IsPrivate = ipv4_IsPrivate,
      IsLoopback = ipv4_IsLoopback,
      IsMulticast = ipv4_IsMulticast,
      SplitHostPort = plain_SplitHostPort,
      TrimSpace = ascii_TrimSpace,
      ToLower = map ascii_lower\<rparr>"

text \<open>Requests: one for each source of the client address.\<close>

definition request_with :: "(string \<times> string) list \<Rightarrow> string \<Rightarrow> Request" where
  "request_with hs peer = \<lparr>Header = map_of (map (\<lambda>(k, v). (k, [v])) hs), RemoteAddr = peer\<rparr>"

definition cdn_request :: Request where
  "cdn_request =
     request_with [(''CF-Connecting-IP'', ''203.0.113.7''), (''X-Real-IP'', ''198.51.100.2'')]
       ''10.0.0.1:4711''"






text \<open>Geography services that fail in each of the three ways, and one that answers.\<close>

definition no_data :: ipapi_data where
  "no_data = \<lparr>data_Status = ''fail'', data_Country = [], data_Region = [], data_City = [],
              data_ISP = [], data_Lat = ''0.000000'', data_Lon = ''0.000000''\<rparr>"

definition mountain_view :: ipapi_data where
  "mountain_view =
     \<lparr>data_Status = ''success'', data_Country = ''United States'', data_Region = ''California'',
      data_City = ''Mountain View'', data_ISP = ''Google LLC'',
      data_Lat = ''37.422000'', data_Lon = ''-122.084000''\<rparr>"

definition geo_unreachable :: geo_service where
  "geo_unreachable =
     \<lparr>http_Get = (\<lambda>url. Inl TransportError), json_Unmarshal = (\<lambda>body. Inl MalformedPayload)\<rparr>"

definition geo_garbled :: geo_service where
  "geo_garbled =
     \<lparr>http_Get = (\<lambda>url. Inr ''<html>''), json_Unmarshal = (\<lambda>body. Inl MalformedPayload)\<rparr>"

definition geo_refuses :: geo_service where
  "geo_refuses =
     \<lparr>http_Get = (\<lambda>url. Inr ''{}''), json_Unmarshal = (\<lambda>body. Inr no_data)\<rparr>"

definition geo_answers :: geo_service where
  "geo_answers =
     \<lparr>http_Get = (\<lambda>url. Inr ''{}''), json_Unmarshal = (\<lambda>body. Inr mountain_view)\<rparr>"

text \<open>Messages, events and registries.\<close>

definition message :: "string \<Rightarrow> Time \<Rightarrow> bool \<Rightarrow> Email" where
  "message ident sent notify =
     \<lparr>Email.ID = ident, From = ''sender@example.org'', To = ''reader@example.org'',
      Subject = ''Hello'', Body = ''<p>Hello</p>'', Email.TrackingID = ident,
      SentAt = sent, NotifyOnOpen = notify, NotifyEmail = ''sender@example.org''\<rparr>"

definition opened :: "string \<Rightarrow> string \<Rightarrow> Time \<Rightarrow> TrackingEvent" where
  "opened ident owner at =
     \<lparr>ID = ''00000000-0000-0000-0000-000000000000'', TrackingID = ident, BaseURL = ''http://t'',
      EmailID = owner, IPAddress = ''203.0.113.7'', UserAgent = ''curl'', Country = [],
      City = [], Region = [], ISP = [], OpenedAt = at, DeviceType = ''Desktop'',
      Browser = ''Unknown'', OS = ''Unknown''\<rparr>"

text \<open>
  A registry at instant 100 with a retention of 30: message \<open>old\<close> is past the horizon,
  message \<open>live\<close> is not but has one event past it, \<open>stale\<close> is live with only an event
  past it, and \<open>ghost\<close> has events and no message.
\<close>

definition sample_registry :: Tracker where
  "sample_registry =
     \<lparr>trackingData =
        [''old'' \<mapsto> message ''old'' 60 False,
         ''live'' \<mapsto> message ''live'' 80 True,
         ''stale'' \<mapsto> message ''stale'' 90 False],
      trackingEvents =
        [''old'' \<mapsto> [opened ''old'' ''old'' 65, opened ''old'' ''old'' 95],
         ''live'' \<mapsto> [opened ''live'' [] 50, opened ''live'' ''live'' 85],
         ''stale'' \<mapsto> [opened ''stale'' [] 10],
         ''ghost'' \<mapsto> [opened ''ghost'' [] 40, opened ''ghost'' [] 99]]\<rparr>"

text \<open>The sample registry after the sweep at instant 100 with a retention of 30.\<close>

definition swept_registry :: Tracker where
  "swept_registry =
     CleanupOldEntries [''live'', ''old'', ''stale''] [''ghost'', ''stale'', ''live''] 100 30
       sample_registry"

definition empty_writer :: ResponseWriter where
  "empty_writer = \<lparr>rw_header = Map.empty, rw_body = []\<rparr>"

definition smtp_hangs :: smtp_world where
  "smtp_hangs = \<lparr>template_parses = True, template_executes = True, SendWithStartTLS = NeverReturns\<rparr>"

definition smtp_quick :: smtp_world where
  "smtp_quick =
     \<lparr>template_parses = True, template_executes = True, SendWithStartTLS = ReturnsAfter 5 True\<rparr>"

definition surroundings :: "geo_service \<Rightarrow> smtp_world \<Rightarrow> nat list open_env" where
  "surroundings service world =
     \<lparr>stdlib_of = ipv4_lib, geo_of = service, uuid_source = RandBytes (map of_nat [1 ..< 17]),
      time_Now = 100, notificationSender = Sender_SendNotification world\<rparr>"

section \<open>Properties of the registry\<close>

subsection \<open>Queries\<close>

text \<open>
  C8. The latest event of an identifier is the last element of its full history, read
  in the same registry: the tail when the history is not empty, no event when the
  history is empty or the identifier is unknown.
\<close>

theorem latest_event_is_last_of_all_events:
  "GetTrackingStats t i =
     (if GetAllTrackingEvents t i = [] then None else Some (last (GetAllTrackingEvents t i)))"
  by (simp add: GetTrackingStats_def GetAllTrackingEvents_def last_conv_nth split: option.splits)

subsection \<open>Registration\<close>

text \<open>
  C10. Registering a message under an identifier changes the message entry of that
  identifier and nothing else: all event histories, the one under the identifier
  included, and the message entries of all other identifiers stay as they were.
\<close>

theorem RegisterEmail_frame:
  "trackingData (RegisterEmail email i t) i = Some email \<and>
   trackingEvents (RegisterEmail email i t) = trackingEvents t \<and>
   (\<forall>j. j \<noteq> i \<longrightarrow> trackingData (RegisterEmail email i t) j = trackingData t j) \<and>
   (\<forall>j. GetAllTrackingEvents (RegisterEmail email i t) j = GetAllTrackingEvents t j)"
  by (simp add: RegisterEmail_def GetAllTrackingEvents_def)

theorem RegisterEmail_frame_witness:
  "trackingData (RegisterEmail (message ''live'' 99 False) ''live'' sample_registry) ''live''
     = Some (message ''live'' 99 False) \<and>
   trackingData (RegisterEmail (message ''live'' 99 False) ''live'' sample_registry) ''old''
     = Some (message ''old'' 60 False) \<and>
   GetAllTrackingEvents (RegisterEmail (message ''live'' 99 False) ''live'' sample_registry) ''live''
     = [opened ''live'' [] 50, opened ''live'' ''live'' 85]"
proof -
  have ne: "''old'' \<noteq> ''live''" by simp
  have old: "trackingData sample_registry ''old'' = Some (message ''old'' 60 False)"
    by (simp add: sample_registry_def)
  have evs: "GetAllTrackingEvents sample_registry ''live''
               = [opened ''live'' [] 50, opened ''live'' ''live'' 85]"
    by (simp add: sample_registry_def GetAllTrackingEvents_def)
  from RegisterEmail_frame [of "message ''live'' 99 False" "''live''" sample_registry] ne old evs
  show ?thesis by simp
qed

subsection \<open>The retention sweep\<close>

lemma recent_events_filter:
  "recent_events cutoff acc events = acc @ filter (\<lambda>event. OpenedAt event > cutoff) events"
  by (induction events arbitrary: acc) simp_all

lemma cleanup_email_step_data:
  "trackingData (cleanup_email_step cutoff k t) i =
     (if i = k \<and> expired cutoff t i then None else trackingData t i)"
  by (auto simp: cleanup_email_step_def expired_def split: option.splits)

lemma cleanup_email_step_events:
  "trackingEvents (cleanup_email_step cutoff k t) i =
     (if i = k \<and> expired cutoff t i then None else trackingEvents t i)"
  by (auto simp: cleanup_email_step_def expired_def split: option.splits)

lemma expired_after_step:
  "expired cutoff (cleanup_email_step cutoff k t) i \<longleftrightarrow> i \<noteq> k \<and> expired cutoff t i"
  by (auto simp: expired_def cleanup_email_step_data split: option.splits)

lemma email_sweep_data:
  "trackingData (fold (cleanup_email_step cutoff) ks t) i =
     (if i \<in> set ks \<and> expired cutoff t i then None else trackingData t i)"
proof (induction ks arbitrary: t)
  case Nil
  show ?case by simp
next
  case (Cons k ks)
  show ?case
    by (simp add: Cons.IH expired_after_step cleanup_email_step_data)
qed

lemma email_sweep_events:
  "trackingEvents (fold (cleanup_email_step cutoff) ks t) i =
     (if i \<in> set ks \<and> expired cutoff t i then None else trackingEvents t i)"
proof (induction ks arbitrary: t)
  case Nil
  show ?case by simp
next
  case (Cons k ks)
  show ?case
    by (simp add: Cons.IH expired_after_step cleanup_email_step_events)
qed

lemma cleanup_events_step_data:
  "trackingData (cleanup_events_step cutoff k t) = trackingData t"
  by (simp add: cleanup_events_step_def split: option.splits)

lemma cleanup_events_step_events:
  "trackingEvents (cleanup_events_step cutoff k t) i =
     (if i = k then map_option (filter (\<lambda>event. OpenedAt event > cutoff)) (trackingEvents t i)
      else trackingEvents t i)"
  by (simp add: cleanup_events_step_def recent_events_filter split: option.splits)

lemma events_sweep_data:
  "trackingData (fold (cleanup_events_step cutoff) ks t) = trackingData t"
  by (induction ks arbitrary: t) (simp_all add: cleanup_events_step_data)

lemma events_sweep_events:
  "trackingEvents (fold (cleanup_events_step cutoff) ks t) i =
     (if i \<in> set ks then map_option (filter (\<lambda>event. OpenedAt event > cutoff)) (trackingEvents t i)
      else trackingEvents t i)"
proof (induction ks arbitrary: t)
  case Nil
  show ?case by simp
next
  case (Cons k ks)
  show ?case
    by (cases "trackingEvents t i") (auto simp: Cons.IH cleanup_events_step_events)
qed

lemma sint_MinInt64: "sint MinInt64 = - 9223372036854775808"
  by (simp add: MinInt64_def)

lemma Time_Add_negated_horizon:
  assumes "maxAge \<noteq> MinInt64"
  shows "Time_Add now (- maxAge) = now - sint maxAge"
proof -
  have "sint maxAge \<noteq> sint MinInt64"
  proof
    assume "sint maxAge = sint MinInt64"
    then have "maxAge = MinInt64" by (rule signed_word_eqI)
    with assms show False by simp
  qed
  then have ne: "sint maxAge \<noteq> - 9223372036854775808"
    unfolding sint_MinInt64 .
  have lo: "- 9223372036854775808 \<le> sint maxAge"
    using sint_ge [of maxAge] by simp
  have hi: "sint maxAge < 9223372036854775808"
    using sint_lt [of maxAge] by simp
  have "signed_take_bit 63 (- sint maxAge) = - sint maxAge"
    using ne lo hi by (intro signed_take_bit_int_eq_self) simp_all
  then have "sint (- maxAge) = - sint maxAge"
    by (simp add: sint_word_minus)
  then show ?thesis
    by (simp add: Time_Add_def)
qed

lemma Time_Add_negated_MinInt64: "Time_Add now (- MinInt64) = now - 9223372036854775808"
  by (simp add: Time_Add_def MinInt64_def)

lemma CleanupOldEntries_sweeps:
  "CleanupOldEntries order1 order2 now maxAge t =
     fold (cleanup_events_step (Time_Add now (- maxAge))) order2
       (fold (cleanup_email_step (Time_Add now (- maxAge))) order1 t)"
  by (simp add: CleanupOldEntries_def Let_def)

lemma CleanupOldEntries_cutoff:
  assumes visit1: "dom (trackingData t) \<subseteq> set order1"
    and visit2:
      "dom (trackingEvents (fold (cleanup_email_step (Time_Add now (- maxAge))) order1 t))
         \<subseteq> set order2"
  shows
    "(\<forall>i email. trackingData t i = Some email \<and> SentAt email < Time_Add now (- maxAge) \<longrightarrow>
        trackingData (CleanupOldEntries order1 order2 now maxAge t) i = None \<and>
        trackingEvents (CleanupOldEntries order1 order2 now maxAge t) i = None) \<and>
     (\<forall>i email. trackingData (CleanupOldEntries order1 order2 now maxAge t) i = Some email \<longrightarrow>
        \<not> SentAt email < Time_Add now (- maxAge)) \<and>
     (\<forall>i events event.
        trackingEvents (CleanupOldEntries order1 order2 now maxAge t) i = Some events \<and>
        event \<in> set events \<longrightarrow> \<not> OpenedAt event < Time_Add now (- maxAge))"
proof -
  let ?c = "Time_Add now (- maxAge)"
  let ?t1 = "fold (cleanup_email_step ?c) order1 t"
  let ?t2 = "CleanupOldEntries order1 order2 now maxAge t"
  note t2 = CleanupOldEntries_sweeps [of order1 order2 now maxAge t]
  have data: "trackingData ?t2 i = (if expired ?c t i then None else trackingData t i)" for i
  proof -
    have "expired ?c t i \<Longrightarrow> i \<in> set order1"
      using visit1 by (auto simp: expired_def split: option.splits)
    then show ?thesis
      by (auto simp: t2 events_sweep_data email_sweep_data)
  qed
  have events: "trackingEvents ?t2 i =
      map_option (filter (\<lambda>event. OpenedAt event > ?c)) (trackingEvents ?t1 i)" for i
  proof (cases "trackingEvents ?t1 i")
    case None
    then show ?thesis by (simp add: t2 events_sweep_events)
  next
    case (Some events)
    then have "i \<in> set order2" using visit2 by blast
    then show ?thesis by (simp add: t2 events_sweep_events)
  qed
  have gone: "trackingData ?t2 i = None \<and> trackingEvents ?t2 i = None"
    if "trackingData t i = Some email" "SentAt email < ?c" for i email
  proof -
    from that have ex: "expired ?c t i" by (simp add: expired_def)
    moreover from that visit1 have "i \<in> set order1" by blast
    ultimately have "trackingEvents ?t1 i = None" by (simp add: email_sweep_events)
    with ex show ?thesis by (simp add: data events)
  qed
  have kept: "\<not> SentAt email < ?c" if "trackingData ?t2 i = Some email" for i email
    using that by (auto simp: data expired_def split: if_splits)
  have fresh: "\<not> OpenedAt event < ?c"
    if "trackingEvents ?t2 i = Some events" "event \<in> set events" for i events event
    using that by (auto simp: events)
  from gone kept fresh show ?thesis by blast
qed

text \<open>
  C2, as amended. For every horizon \<open>maxAge\<close> other than \<open>MinInt64\<close>, after the sweep at
  instant \<open>now\<close> every message created before \<open>now - maxAge\<close> is gone together with its
  whole history, no remaining message was created before \<open>now - maxAge\<close>, and no
  remaining history, under any identifier (with a live message or with none), holds an
  event older than \<open>now - maxAge\<close>. Each loop visits every key of the map it ranges
  over, in any order.
\<close>

theorem CleanupOldEntries_horizon:
  assumes horizon: "maxAge \<noteq> MinInt64"
    and visit1: "dom (trackingData t) \<subseteq> set order1"
    and visit2:
      "dom (trackingEvents (fold (cleanup_email_step (Time_Add now (- maxAge))) order1 t))
         \<subseteq> set order2"
  shows
    "(\<forall>i email. trackingData t i = Some email \<and> SentAt email < now - sint maxAge \<longrightarrow>
        trackingData (CleanupOldEntries order1 order2 now maxAge t) i = None \<and>
        trackingEvents (CleanupOldEntries order1 order2 now maxAge t) i = None) \<and>
     (\<forall>i email. trackingData (CleanupOldEntries order1 order2 now maxAge t) i = Some email \<longrightarrow>
        \<not> SentAt email < now - sint maxAge) \<and>
     (\<forall>i events event.
        trackingEvents (CleanupOldEntries order1 order2 now maxAge t) i = Some events \<and>
        event \<in> set events \<longrightarrow> \<not> OpenedAt event < now - sint maxAge)"
  using CleanupOldEntries_cutoff [OF visit1 visit2]
  unfolding Time_Add_negated_horizon [OF horizon] .

lemma sample_cutoff: "Time_Add 100 (- 30) = 70"
  by (simp add: Time_Add_def)

lemma sample_expired: "expired 70 sample_registry i \<longleftrightarrow> i = ''old''"
  by (simp add: expired_def sample_registry_def message_def)

lemma swept_data:
  "trackingData swept_registry i = (if i = ''old'' then None else trackingData sample_registry i)"
proof -
  have a: "trackingData swept_registry i =
      (if i \<in> set [''live'', ''old'', ''stale''] \<and> expired 70 sample_registry i then None
       else trackingData sample_registry i)"
    unfolding swept_registry_def CleanupOldEntries_sweeps sample_cutoff
    by (simp only: events_sweep_data email_sweep_data)
  have b: "(if i \<in> set [''live'', ''old'', ''stale''] \<and> expired 70 sample_registry i then None
       else trackingData sample_registry i) =
      (if i = ''old'' then None else trackingData sample_registry i)"
    by (simp add: sample_expired)
  from a b show ?thesis by (rule trans)
qed

lemma email_swept_events:
  "trackingEvents (fold (cleanup_email_step 70) [''live'', ''old'', ''stale''] sample_registry) i =
     (if i = ''old'' then None else trackingEvents sample_registry i)"
proof -
  have a: "trackingEvents (fold (cleanup_email_step 70) [''live'', ''old'', ''stale''] sample_registry) i =
      (if i \<in> set [''live'', ''old'', ''stale''] \<and> expired 70 sample_registry i then None
       else trackingEvents sample_registry i)"
    by (simp only: email_sweep_events)
  have b: "(if i \<in> set [''live'', ''old'', ''stale''] \<and> expired 70 sample_registry i then None
       else trackingEvents sample_registry i) =
      (if i = ''old'' then None else trackingEvents sample_registry i)"
    by (simp add: sample_expired)
  from a b show ?thesis by (rule trans)
qed

lemma swept_events:
  "trackingEvents swept_registry i =
     (if i = ''old'' then None
      else map_option (filter (\<lambda>event. 70 < OpenedAt event)) (trackingEvents sample_registry i))"
proof -
  have outside: "i \<notin> set [''ghost'', ''stale'', ''live''] \<Longrightarrow> i \<noteq> ''old'' \<Longrightarrow>
      trackingEvents sample_registry i = None"
    by (simp add: sample_registry_def)
  have a: "trackingEvents swept_registry i =
      (if i \<in> set [''ghost'', ''stale'', ''live'']
       then map_option (filter (\<lambda>event. 70 < OpenedAt event))
              (if i = ''old'' then None else trackingEvents sample_registry i)
       else (if i = ''old'' then None else trackingEvents sample_registry i))"
    unfolding swept_registry_def CleanupOldEntries_sweeps sample_cutoff
    by (simp only: events_sweep_events email_swept_events)
  have b: "(if i \<in> set [''ghost'', ''stale'', ''live'']
       then map_option (filter (\<lambda>event. 70 < OpenedAt event))
              (if i = ''old'' then None else trackingEvents sample_registry i)
       else (if i = ''old'' then None else trackingEvents sample_registry i)) =
      (if i = ''old'' then None
       else map_option (filter (\<lambda>event. 70 < OpenedAt event)) (trackingEvents sample_registry i))"
    using outside by (cases "i = ''old''") auto
  from a b show ?thesis by (rule trans)
qed

theorem CleanupOldEntries_horizon_witness:
  "(30 :: int64) \<noteq> MinInt64 \<and>
   trackingData sample_registry ''old'' = Some (message ''old'' 60 False) \<and>
   SentAt (message ''old'' 60 False) < 100 - sint (30 :: int64) \<and>
   trackingData swept_registry ''old'' = None \<and>
   trackingEvents swept_registry ''old'' = None \<and>
   trackingEvents swept_registry ''live'' = Some [opened ''live'' ''live'' 85] \<and>
   \<not> OpenedAt (opened ''live'' ''live'' 85) < 100 - sint (30 :: int64)"
proof -
  have h: "(30 :: int64) \<noteq> MinInt64"
    by (simp add: MinInt64_def)
  have v1: "dom (trackingData sample_registry) \<subseteq> set [''live'', ''old'', ''stale'']"
    by (auto simp: sample_registry_def split: if_splits)
  have v2: "dom (trackingEvents (fold (cleanup_email_step (Time_Add 100 (- 30)))
               [''live'', ''old'', ''stale''] sample_registry)) \<subseteq> set [''ghost'', ''stale'', ''live'']"
  proof (rule subsetI)
    fix x
    assume "x \<in> dom (trackingEvents (fold (cleanup_email_step (Time_Add 100 (- 30)))
        [''live'', ''old'', ''stale''] sample_registry))"
    then have "trackingEvents (fold (cleanup_email_step (Time_Add 100 (- 30)))
        [''live'', ''old'', ''stale''] sample_registry) x \<noteq> None"
      by (rule domIff [THEN iffD1])
    then have "(if x = ''old'' then None else trackingEvents sample_registry x) \<noteq> None"
      unfolding sample_cutoff email_swept_events .
    then show "x \<in> set [''ghost'', ''stale'', ''live'']"
      by (simp add: sample_registry_def split: if_splits)
  qed
  have old: "trackingData sample_registry ''old'' = Some (message ''old'' 60 False)"
    by (simp add: sample_registry_def)
  have sent: "SentAt (message ''old'' 60 False) < 100 - sint (30 :: int64)"
    by (simp add: message_def)
  have live: "trackingEvents swept_registry ''live'' = Some [opened ''live'' ''live'' 85]"
    by (simp add: swept_events sample_registry_def opened_def)
  have mem: "opened ''live'' ''live'' 85 \<in> set [opened ''live'' ''live'' 85]" by simp
  from CleanupOldEntries_horizon [OF h v1 v2] h old sent live mem
  show ?thesis unfolding swept_registry_def by blast
qed

text \<open>
  C2, as stated for every horizon, fails at the horizon \<open>MinInt64\<close>: its negation is
  \<open>MinInt64\<close> again, the cutoff lies \<open>2 ^ 63\<close> nanoseconds before \<open>now\<close> instead of after it,
  and the message \<open>old\<close> of the sample registry, created before \<open>now - maxAge\<close>, stays
  with its history.
\<close>

lemma MinInt64_cutoff: "Time_Add 100 (- MinInt64) = - 9223372036854775708"
  by (simp add: Time_Add_def MinInt64_def)

theorem CleanupOldEntries_MinInt64_counterexample:
  "SentAt (message ''old'' 60 False) < 100 - sint MinInt64 \<and>
   trackingData sample_registry ''old'' = Some (message ''old'' 60 False) \<and>
   trackingData (CleanupOldEntries [''live'', ''old'', ''stale''] [''ghost'', ''stale'', ''live'']
      100 MinInt64 sample_registry) ''old'' = Some (message ''old'' 60 False) \<and>
   trackingEvents (CleanupOldEntries [''live'', ''old'', ''stale''] [''ghost'', ''stale'', ''live'']
      100 MinInt64 sample_registry) ''old'' =
     Some [opened ''old'' ''old'' 65, opened ''old'' ''old'' 95]"
proof -
  have sent: "SentAt (message ''old'' 60 False) < 100 - sint MinInt64"
    by (simp add: message_def sint_MinInt64)
  have old: "trackingData sample_registry ''old'' = Some (message ''old'' 60 False)"
    by (simp add: sample_registry_def)
  have evs: "trackingEvents sample_registry ''old'' =
      Some [opened ''old'' ''old'' 65, opened ''old'' ''old'' 95]"
    by (simp add: sample_registry_def)
  have keep: "\<not> expired (- 9223372036854775708) sample_registry ''old''"
    by (simp add: expired_def old message_def)
  have "trackingData (CleanupOldEntries [''live'', ''old'', ''stale'']
      [''ghost'', ''stale'', ''live''] 100 MinInt64 sample_registry) ''old'' =
      (if ''old'' \<in> set [''live'', ''old'', ''stale''] \<and>
          expired (- 9223372036854775708) sample_registry ''old''
       then None else trackingData sample_registry ''old'')"
    unfolding CleanupOldEntries_sweeps MinInt64_cutoff
    by (simp only: events_sweep_data email_sweep_data)
  also have "\<dots> = Some (message ''old'' 60 False)"
    by (simp add: keep old)
  finally have data: "trackingData (CleanupOldEntries [''live'', ''old'', ''stale'']
      [''ghost'', ''stale'', ''live''] 100 MinInt64 sample_registry) ''old'' =
      Some (message ''old'' 60 False)" .
  have "trackingEvents (CleanupOldEntries [''live'', ''old'', ''stale'']
      [''ghost'', ''stale'', ''live''] 100 MinInt64 sample_registry) ''old'' =
      (if ''old'' \<in> set [''ghost'', ''stale'', ''live'']
       then map_option (filter (\<lambda>event. - 9223372036854775708 < OpenedAt event))
              (if ''old'' \<in> set [''live'', ''old'', ''stale''] \<and>
                  expired (- 9223372036854775708) sample_registry ''old''
               then None else trackingEvents sample_registry ''old'')
       else (if ''old'' \<in> set [''live'', ''old'', ''stale''] \<and>
                expired (- 9223372036854775708) sample_registry ''old''
             then None else trackingEvents sample_registry ''old''))"
    unfolding CleanupOldEntries_sweeps MinInt64_cutoff
    by (simp only: events_sweep_events email_sweep_events)
  also have "\<dots> = Some [opened ''old'' ''old'' 65, opened ''old'' ''old'' 95]"
    by (simp add: keep evs)
  finally have events: "trackingEvents (CleanupOldEntries [''live'', ''old'', ''stale'']
      [''ghost'', ''stale'', ''live''] 100 MinInt64 sample_registry) ''old'' =
      Some [opened ''old'' ''old'' 65, opened ''old'' ''old'' 95]" .
  from sent old data events show ?thesis by simp
qed

subsection \<open>The two kinds of query miss\<close>

text \<open>
  C5, as amended. The stats query returns the nil result exactly when the identifier
  has no recorded event, and this covers two registry states alike: no history under
  the identifier, and a history that is present but empty. The result is the same in
  both, so the query does not tell them apart.
\<close>

theorem GetTrackingStats_miss:
  "(GetTrackingStats t i = None) =
     (trackingEvents t i = None \<or> trackingEvents t i = Some [])"
  by (simp add: GetTrackingStats_def split: option.splits)

text \<open>
  C5, as stated, fails: in the swept sample registry the identifier \<open>stale\<close> has
  a present, empty history and \<open>nobody\<close> has none, and the stats query answers nil for
  both.
\<close>

theorem GetTrackingStats_miss_counterexample:
  "trackingEvents swept_registry ''stale'' = Some [] \<and>
   trackingEvents swept_registry ''nobody'' = None \<and>
   GetTrackingStats swept_registry ''stale'' = GetTrackingStats swept_registry ''nobody''"
proof -
  have stale: "trackingEvents swept_registry ''stale'' = Some []"
    by (simp add: swept_events sample_registry_def opened_def)
  have nobody: "trackingEvents swept_registry ''nobody'' = None"
    by (simp add: swept_events sample_registry_def)
  from stale nobody show ?thesis
    by (simp add: GetTrackingStats_def)
qed

section \<open>Properties of recording an open\<close>

lemma GetGeoLocation_failure:
  "lookup_fails net ip \<Longrightarrow>
   GetGeoLocation net ip =
     (\<lparr>IP = ip, GeoLocation.Country = [], GeoLocation.City = [], GeoLocation.Region = [],
       GeoLocation.ISP = [], Lat = [], Lon = []\<rparr>, Some CouldNotDetermine)"
  by (auto simp: lookup_fails_def GetGeoLocation_def getGeoFromIPAPI_def
      split: sum.splits)

lemma tracker_after_open:
  "tracker_after (TrackEmailOpen env t w r i b) =
     t\<lparr>trackingEvents := (trackingEvents t)
         (i \<mapsto> GetAllTrackingEvents t i @ [stored_event (TrackEmailOpen env t w r i b)])\<rparr>"
  by (simp add: TrackEmailOpen_def Let_def GetAllTrackingEvents_def split: prod.splits)

lemma stored_event_open:
  "stored_event (TrackEmailOpen env t w r i b) =
     \<lparr>ID = GenerateUUID (uuid_source env),
      TrackingID = i,
      BaseURL = b,
      EmailID = (case trackingData t i of Some email \<Rightarrow> Email.ID email | None \<Rightarrow> []),
      IPAddress = GetClientIP (stdlib_of env) r,
      UserAgent = Request_UserAgent r,
      Country = GeoLocation.Country (fst (GetGeoLocation (geo_of env) (GetClientIP (stdlib_of env) r))),
      City = GeoLocation.City (fst (GetGeoLocation (geo_of env) (GetClientIP (stdlib_of env) r))),
      Region = GeoLocation.Region (fst (GetGeoLocation (geo_of env) (GetClientIP (stdlib_of env) r))),
      ISP = GeoLocation.ISP (fst (GetGeoLocation (geo_of env) (GetClientIP (stdlib_of env) r))),
      OpenedAt = time_Now env,
      DeviceType = DeviceInfo.DeviceType (ParseUserAgent (stdlib_of env) (Request_UserAgent r)),
      Browser = DeviceInfo.Browser (ParseUserAgent (stdlib_of env) (Request_UserAgent r)),
      OS = DeviceInfo.OS (ParseUserAgent (stdlib_of env) (Request_UserAgent r))\<rparr>"
  by (simp add: TrackEmailOpen_def Let_def split: prod.splits)

lemma geo_err_open:
  "geo_err (TrackEmailOpen env t w r i b) =
     snd (GetGeoLocation (geo_of env) (GetClientIP (stdlib_of env) r))"
  by (simp add: TrackEmailOpen_def Let_def split: prod.splits)

lemma writer_after_open:
  "writer_after (TrackEmailOpen env t w r i b) =
     Write gifData
       (Header_Set ''Expires'' ''0''
         (Header_Set ''Pragma'' ''no-cache''
           (Header_Set ''Cache-Control'' ''no-cache, no-store, must-revalidate''
             (Header_Set ''Content-Type'' ''image/gif'' w))))"
  by (simp add: TrackEmailOpen_def Let_def split: prod.splits)

lemma notification_open:
  "(notify_err (TrackEmailOpen env t w r i b), blocked_before_response (TrackEmailOpen env t w r i b)) =
     (case trackingData t i of
        Some email \<Rightarrow>
          if NotifyOnOpen email
          then (Some (fst (notificationSender env (nat (10 * Second)) [NotifyEmail email]
                  (notification_subject email)
                  (notification_data email (stored_event (TrackEmailOpen env t w r i b))))),
                snd (notificationSender env (nat (10 * Second)) [NotifyEmail email]
                  (notification_subject email)
                  (notification_data email (stored_event (TrackEmailOpen env t w r i b)))))
          else (None, 0)
      | None \<Rightarrow> (None, 0))"
  by (simp add: TrackEmailOpen_def Let_def split: prod.splits option.splits)

lemma rw_body_written: "rw_body (Write bs (Header_Set k v w)) = rw_body (Write bs w)"
  by (simp add: Write_def Header_Set_def)

text \<open>
  C3. Recording an open for any identifier, registered or not, appends exactly one
  event to the history of that identifier and leaves every other history and the
  message table as they were; the event names the identifier, and its owning-message
  reference is empty when no message is registered under the identifier.
\<close>

theorem TrackEmailOpen_appends_one_event:
  "GetAllTrackingEvents (tracker_after (TrackEmailOpen env t w r i b)) i =
     GetAllTrackingEvents t i @ [stored_event (TrackEmailOpen env t w r i b)] \<and>
   length (GetAllTrackingEvents (tracker_after (TrackEmailOpen env t w r i b)) i) =
     length (GetAllTrackingEvents t i) + 1 \<and>
   GetTrackingStats (tracker_after (TrackEmailOpen env t w r i b)) i =
     Some (stored_event (TrackEmailOpen env t w r i b)) \<and>
   TrackingID (stored_event (TrackEmailOpen env t w r i b)) = i \<and>
   (trackingData t i = None \<longrightarrow> EmailID (stored_event (TrackEmailOpen env t w r i b)) = []) \<and>
   (\<forall>email. trackingData t i = Some email \<longrightarrow>
      EmailID (stored_event (TrackEmailOpen env t w r i b)) = Email.ID email) \<and>
   (\<forall>j. j \<noteq> i \<longrightarrow>
      trackingEvents (tracker_after (TrackEmailOpen env t w r i b)) j = trackingEvents t j) \<and>
   trackingData (tracker_after (TrackEmailOpen env t w r i b)) = trackingData t"
proof -
  let ?out = "TrackEmailOpen env t w r i b"
  have hist: "GetAllTrackingEvents (tracker_after ?out) i =
      GetAllTrackingEvents t i @ [stored_event ?out]"
    by (simp add: tracker_after_open GetAllTrackingEvents_def)
  have len: "length (GetAllTrackingEvents (tracker_after ?out) i) =
      length (GetAllTrackingEvents t i) + 1"
    by (simp add: hist)
  have latest: "GetTrackingStats (tracker_after ?out) i = Some (stored_event ?out)"
    by (simp add: tracker_after_open GetTrackingStats_def)
  have ident: "TrackingID (stored_event ?out) = i"
    by (simp add: stored_event_open)
  have ownerless: "trackingData t i = None \<longrightarrow> EmailID (stored_event ?out) = []"
    by (simp add: stored_event_open)
  have owned: "\<forall>email. trackingData t i = Some email \<longrightarrow>
      EmailID (stored_event ?out) = Email.ID email"
    by (simp add: stored_event_open)
  have others: "\<forall>j. j \<noteq> i \<longrightarrow> trackingEvents (tracker_after ?out) j = trackingEvents t j"
    by (simp add: tracker_after_open)
  have table: "trackingData (tracker_after ?out) = trackingData t"
    by (simp add: tracker_after_open)
  from hist len latest ident ownerless owned others table show ?thesis by blast
qed

theorem TrackEmailOpen_appends_one_event_witness:
  "trackingData sample_registry ''nobody'' = None \<and>
   GetAllTrackingEvents sample_registry ''nobody'' = [] \<and>
   length (GetAllTrackingEvents (tracker_after (TrackEmailOpen
      (surroundings geo_answers smtp_quick) sample_registry empty_writer cdn_request
      ''nobody'' ''http://t'')) ''nobody'') = 1 \<and>
   EmailID (stored_event (TrackEmailOpen
      (surroundings geo_answers smtp_quick) sample_registry empty_writer cdn_request
      ''nobody'' ''http://t'')) = []"
proof -
  have none: "trackingData sample_registry ''nobody'' = None"
    by (simp add: sample_registry_def)
  have empty: "GetAllTrackingEvents sample_registry ''nobody'' = []"
    by (simp add: sample_registry_def GetAllTrackingEvents_def)
  from TrackEmailOpen_appends_one_event [of "surroundings geo_answers smtp_quick"
      sample_registry empty_writer cdn_request "''nobody''" "''http://t''"] none empty
  show ?thesis by simp
qed

text \<open>
  C6. When the geography lookup for the client address fails (network error, malformed
  payload or a status other than success), the open is recorded all the same: the
  event is appended, its country, city, region and provider are empty, the error of the
  lookup stays inside the handler (it is printed), and the pixel is written.
\<close>

theorem geo_failure_leaves_event_recorded:
  assumes "lookup_fails (geo_of env) (GetClientIP (stdlib_of env) r)"
  shows
    "Country (stored_event (TrackEmailOpen env t w r i b)) = [] \<and>
     City (stored_event (TrackEmailOpen env t w r i b)) = [] \<and>
     Region (stored_event (TrackEmailOpen env t w r i b)) = [] \<and>
     ISP (stored_event (TrackEmailOpen env t w r i b)) = [] \<and>
     geo_err (TrackEmailOpen env t w r i b) = Some CouldNotDetermine \<and>
     GetAllTrackingEvents (tracker_after (TrackEmailOpen env t w r i b)) i =
       GetAllTrackingEvents t i @ [stored_event (TrackEmailOpen env t w r i b)] \<and>
     rw_body (writer_after (TrackEmailOpen env t w r i b)) = rw_body w @ gifData"
proof -
  let ?out = "TrackEmailOpen env t w r i b"
  note geo = GetGeoLocation_failure [OF assms]
  have fields: "Country (stored_event ?out) = [] \<and> City (stored_event ?out) = [] \<and>
      Region (stored_event ?out) = [] \<and> ISP (stored_event ?out) = []"
    by (simp add: stored_event_open geo)
  have err: "geo_err ?out = Some CouldNotDetermine"
    by (simp add: geo_err_open geo)
  have hist: "GetAllTrackingEvents (tracker_after ?out) i =
      GetAllTrackingEvents t i @ [stored_event ?out]"
    by (simp add: tracker_after_open GetAllTrackingEvents_def)
  have pixel: "rw_body (writer_after ?out) = rw_body w @ gifData"
    by (simp add: writer_after_open rw_body_written) (simp add: Write_def)
  from fields err hist pixel show ?thesis by blast
qed

theorem geo_failure_leaves_event_recorded_witness:
  "lookup_fails (geo_of (surroundings geo_unreachable smtp_quick))
     (GetClientIP (stdlib_of (surroundings geo_unreachable smtp_quick)) cdn_request) \<and>
   lookup_fails (geo_of (surroundings geo_garbled smtp_quick))
     (GetClientIP (stdlib_of (surroundings geo_garbled smtp_quick)) cdn_request) \<and>
   lookup_fails (geo_of (surroundings geo_refuses smtp_quick))
     (GetClientIP (stdlib_of (surroundings geo_refuses smtp_quick)) cdn_request) \<and>
   Country (stored_event (TrackEmailOpen (surroundings geo_unreachable smtp_quick)
      sample_registry empty_writer cdn_request ''live'' ''http://t'')) = [] \<and>
   City (stored_event (TrackEmailOpen (surroundings geo_garbled smtp_quick)
      sample_registry empty_writer cdn_request ''live'' ''http://t'')) = [] \<and>
   ISP (stored_event (TrackEmailOpen (surroundings geo_refuses smtp_quick)
      sample_registry empty_writer cdn_request ''live'' ''http://t'')) = [] \<and>
   rw_body (writer_after (TrackEmailOpen (surroundings geo_refuses smtp_quick)
      sample_registry empty_writer cdn_request ''live'' ''http://t'')) = gifData"
proof -
  have f1: "lookup_fails (geo_of (surroundings geo_unreachable smtp_quick))
      (GetClientIP (stdlib_of (surroundings geo_unreachable smtp_quick)) cdn_request)"
    by (simp add: lookup_fails_def surroundings_def geo_unreachable_def)
  have f2: "lookup_fails (geo_of (surroundings geo_garbled smtp_quick))
      (GetClientIP (stdlib_of (surroundings geo_garbled smtp_quick)) cdn_request)"
    by (simp add: lookup_fails_def surroundings_def geo_garbled_def)
  have f3: "lookup_fails (geo_of (surroundings geo_refuses smtp_quick))
      (GetClientIP (stdlib_of (surroundings geo_refuses smtp_quick)) cdn_request)"
    by (simp add: lookup_fails_def surroundings_def geo_refuses_def no_data_def)
  have w: "rw_body empty_writer = []"
    by (simp add: empty_writer_def)
  from f1 f2 f3 w
    geo_failure_leaves_event_recorded [OF f1, of sample_registry empty_writer "''live''" "''http://t''"]
    geo_failure_leaves_event_recorded [OF f2, of sample_registry empty_writer "''live''" "''http://t''"]
    geo_failure_leaves_event_recorded [OF f3, of sample_registry empty_writer "''live''" "''http://t''"]
  show ?thesis by simp
qed

section \<open>Notification and the response\<close>

lemma Sender_SendNotification_blocked:
  "snd (Sender_SendNotification world ctx to subject data) =
     (if \<not> template_parses world \<or> \<not> template_executes world then 0
      else (case SendWithStartTLS world of
              NeverReturns \<Rightarrow> ctx
            | ReturnsAfter d ok \<Rightarrow> min d ctx))"
  by (simp add: Sender_SendNotification_def min_def split: transport.splits)

lemma Sender_SendNotification_bounded:
  "snd (Sender_SendNotification world ctx to subject data) \<le> ctx"
  by (simp add: Sender_SendNotification_blocked split: transport.splits)

lemma blocked_open:
  "blocked_before_response (TrackEmailOpen env t w r i b) =
     (case trackingData t i of
        Some email \<Rightarrow>
          if NotifyOnOpen email
          then snd (notificationSender env (nat (10 * Second)) [NotifyEmail email]
                  (notification_subject email)
                  (notification_data email (stored_event (TrackEmailOpen env t w r i b))))
          else 0
      | None \<Rightarrow> 0)"
  using notification_open [of env t w r i b]
  by (auto split: option.splits if_splits)

lemma notify_err_open:
  "notify_err (TrackEmailOpen env t w r i b) =
     (case trackingData t i of
        Some email \<Rightarrow>
          if NotifyOnOpen email
          then Some (fst (notificationSender env (nat (10 * Second)) [NotifyEmail email]
                  (notification_subject email)
                  (notification_data email (stored_event (TrackEmailOpen env t w r i b)))))
          else None
      | None \<Rightarrow> None)"
  using notification_open [of env t w r i b]
  by (auto split: option.splits if_splits)

lemma stored_event_sender:
  "stored_event (TrackEmailOpen (env\<lparr>notificationSender := f\<rparr>) t w r i b) =
   stored_event (TrackEmailOpen env t w r i b)"
  by (simp add: stored_event_open)

text \<open>
  C4, as amended. With the sender of the repository behind the interface, the
  statements that write the pixel run only after \<^verbatim>\<open>SendNotification\<close> has returned. For
  a message that opted into notification the handler is blocked, once the template is
  rendered, until the transport returns or the context of ten seconds is done,
  whichever comes first, hence for at most ten seconds; for an identifier without such
  a message nothing is sent and nothing is waited for. Whatever the sender does and
  returns, the stored event, the registry and the response are the same.
\<close>

theorem response_follows_notification:
  assumes "notificationSender env = Sender_SendNotification world"
  shows
    "blocked_before_response (TrackEmailOpen env t w r i b) \<le> nat (10 * Second) \<and>
     (\<forall>email. trackingData t i = Some email \<and> NotifyOnOpen email \<and>
        template_parses world \<and> template_executes world \<longrightarrow>
        blocked_before_response (TrackEmailOpen env t w r i b) =
          (case SendWithStartTLS world of
             NeverReturns \<Rightarrow> nat (10 * Second)
           | ReturnsAfter d ok \<Rightarrow> min d (nat (10 * Second)))) \<and>
     ((case trackingData t i of Some email \<Rightarrow> \<not> NotifyOnOpen email | None \<Rightarrow> True) \<longrightarrow>
        blocked_before_response (TrackEmailOpen env t w r i b) = 0 \<and>
        notify_err (TrackEmailOpen env t w r i b) = None) \<and>
     (\<forall>f. stored_event (TrackEmailOpen (env\<lparr>notificationSender := f\<rparr>) t w r i b) =
             stored_event (TrackEmailOpen env t w r i b) \<and>
           tracker_after (TrackEmailOpen (env\<lparr>notificationSender := f\<rparr>) t w r i b) =
             tracker_after (TrackEmailOpen env t w r i b) \<and>
           writer_after (TrackEmailOpen (env\<lparr>notificationSender := f\<rparr>) t w r i b) =
             writer_after (TrackEmailOpen env t w r i b))"
proof -
  let ?out = "TrackEmailOpen env t w r i b"
  have bound: "blocked_before_response ?out \<le> nat (10 * Second)"
    by (simp add: blocked_open assms Sender_SendNotification_bounded split: option.splits)
  have exact: "\<forall>email. trackingData t i = Some email \<and> NotifyOnOpen email \<and>
        template_parses world \<and> template_executes world \<longrightarrow>
        blocked_before_response ?out =
          (case SendWithStartTLS world of
             NeverReturns \<Rightarrow> nat (10 * Second)
           | ReturnsAfter d ok \<Rightarrow> min d (nat (10 * Second)))"
    by (simp add: blocked_open assms Sender_SendNotification_blocked)
  have silent: "(case trackingData t i of Some email \<Rightarrow> \<not> NotifyOnOpen email | None \<Rightarrow> True) \<longrightarrow>
        blocked_before_response ?out = 0 \<and> notify_err ?out = None"
    by (simp add: blocked_open notify_err_open split: option.splits)
  have same: "\<forall>f. stored_event (TrackEmailOpen (env\<lparr>notificationSender := f\<rparr>) t w r i b) =
             stored_event ?out \<and>
           tracker_after (TrackEmailOpen (env\<lparr>notificationSender := f\<rparr>) t w r i b) =
             tracker_after ?out \<and>
           writer_after (TrackEmailOpen (env\<lparr>notificationSender := f\<rparr>) t w r i b) =
             writer_after ?out"
    by (simp add: tracker_after_open writer_after_open stored_event_sender)
  from bound exact silent same show ?thesis by blast
qed

theorem response_follows_notification_witness:
  "notificationSender (surroundings geo_answers smtp_quick) = Sender_SendNotification smtp_quick \<and>
   trackingData sample_registry ''live'' = Some (message ''live'' 80 True) \<and>
   NotifyOnOpen (message ''live'' 80 True) \<and>
   template_parses smtp_quick \<and> template_executes smtp_quick \<and>
   blocked_before_response (TrackEmailOpen (surroundings geo_answers smtp_quick) sample_registry
      empty_writer cdn_request ''live'' ''http://t'') = 5 \<and>
   blocked_before_response (TrackEmailOpen (surroundings geo_answers smtp_quick) sample_registry
      empty_writer cdn_request ''stale'' ''http://t'') = 0"
proof -
  have s: "notificationSender (surroundings geo_answers smtp_quick) = Sender_SendNotification smtp_quick"
    by (simp add: surroundings_def)
  have live: "trackingData sample_registry ''live'' = Some (message ''live'' 80 True)"
    by (simp add: sample_registry_def)
  have stale: "trackingData sample_registry ''stale'' = Some (message ''stale'' 90 False)"
    by (simp add: sample_registry_def)
  have n: "NotifyOnOpen (message ''live'' 80 True)" "\<not> NotifyOnOpen (message ''stale'' 90 False)"
    by (simp_all add: message_def)
  have q: "template_parses smtp_quick" "template_executes smtp_quick"
    "SendWithStartTLS smtp_quick = ReturnsAfter 5 True"
    by (simp_all add: smtp_quick_def)
  have ten: "min 5 (nat (10 * Second)) = 5"
    by (simp add: Second_def)
  from response_follows_notification [OF s, of sample_registry empty_writer cdn_request
      "''live''" "''http://t''"] live n q ten
  have a: "blocked_before_response (TrackEmailOpen (surroundings geo_answers smtp_quick)
      sample_registry empty_writer cdn_request ''live'' ''http://t'') = 5"
    by simp
  from response_follows_notification [OF s, of sample_registry empty_writer cdn_request
      "''stale''" "''http://t''"] stale n
  have b: "blocked_before_response (TrackEmailOpen (surroundings geo_answers smtp_quick)
      sample_registry empty_writer cdn_request ''stale'' ''http://t'') = 0"
    by simp
  from s live n q a b show ?thesis by simp
qed

text \<open>
  C4, as stated, fails: for the message \<open>live\<close>, which opted into notification, the
  response is reached after five nanoseconds with a transport that answers in five,
  and only after the full ten seconds with a transport that never answers.
\<close>

theorem response_waits_counterexample:
  "blocked_before_response (TrackEmailOpen (surroundings geo_answers smtp_quick) sample_registry
      empty_writer cdn_request ''live'' ''http://t'') = 5 \<and>
   blocked_before_response (TrackEmailOpen (surroundings geo_answers smtp_hangs) sample_registry
      empty_writer cdn_request ''live'' ''http://t'') = 10000000000"
  by (simp add: blocked_open surroundings_def sample_registry_def message_def
      Sender_SendNotification_def smtp_quick_def smtp_hangs_def Second_def)

section \<open>Properties of client address resolution\<close>











section \<open>Properties of identifier generation\<close>

lemma length_encodeURL: "length encodeURL = 64"
  by (simp add: encodeURL_def)

lemma distinct_encodeURL: "distinct encodeURL"
  by (simp add: encodeURL_def)

lemma enc6_alphabet: "enc6 v \<in> set encodeURL"
  by (simp add: enc6_def length_encodeURL)

lemma enc6_inject: "enc6 u = enc6 v \<Longrightarrow> u mod 64 = v mod 64"
  unfolding enc6_def
  by (subst (asm) nth_eq_iff_index_eq [OF distinct_encodeURL]) (simp_all add: length_encodeURL)

lemma StdPadding_not_alphabet: "StdPadding \<notin> set encodeURL"
  by (simp add: StdPadding_def encodeURL_def)

lemma length_EncodeToString: "length (EncodeToString src) = 4 * ((length src + 2) div 3)"
proof (induction src rule: EncodeToString.induct)
  case (4 b0 b1 b2 src)
  have "(length src + 5) div 3 = Suc ((length src + 2) div 3)"
    by (simp add: div_add_self1 flip: add_2_eq_Suc)
  with 4 show ?case by (simp add: Let_def add.commute)
qed (simp_all add: Let_def)

lemma EncodeToString_padded:
  "length src mod 3 = 2 \<Longrightarrow>
   \<exists>body. EncodeToString src = body @ [StdPadding] \<and> set body \<subseteq> set encodeURL"
proof (induction src rule: EncodeToString.induct)
  case 1
  then show ?case by simp
next
  case (2 b0)
  then show ?case by simp
next
  case (3 b0 b1)
  let ?val = "unat b0 * 65536 + unat b1 * 256"
  have "EncodeToString [b0, b1] =
      [enc6 (?val div 262144), enc6 (?val div 4096), enc6 (?val div 64)] @ [StdPadding]"
    by (simp add: Let_def)
  moreover have "set [enc6 (?val div 262144), enc6 (?val div 4096), enc6 (?val div 64)]
      \<subseteq> set encodeURL"
    by (simp add: enc6_alphabet)
  ultimately show ?case by blast
next
  case (4 b0 b1 b2 src)
  let ?val = "unat b0 * 65536 + unat b1 * 256 + unat b2"
  let ?quad = "[enc6 (?val div 262144), enc6 (?val div 4096), enc6 (?val div 64), enc6 ?val]"
  from 4 have "length src mod 3 = 2" by simp
  with 4 obtain body where body: "EncodeToString src = body @ [StdPadding]"
    "set body \<subseteq> set encodeURL"
    by blast
  have "EncodeToString (b0 # b1 # b2 # src) = (?quad @ body) @ [StdPadding]"
    by (simp add: Let_def body)
  moreover have "set (?quad @ body) \<subseteq> set encodeURL"
    using body by (simp add: enc6_alphabet)
  ultimately show ?case by blast
qed

text \<open>The four 6-bit digits of a 24-bit value determine it, and the value its three bytes.\<close>

lemma sextets_value:
  fixes v :: nat
  shows "v mod 16777216 =
     262144 * (v div 262144 mod 64) +
       (4096 * (v div 4096 mod 64) + (64 * (v div 64 mod 64) + v mod 64))"
proof -
  have a: "v mod 4096 = 64 * (v div 64 mod 64) + v mod 64"
    using mod_mult2_eq [of v 64 64] by simp
  have b: "v mod 262144 = 4096 * (v div 4096 mod 64) + v mod 4096"
    using mod_mult2_eq [of v 4096 64] by simp
  have c: "v mod 16777216 = 262144 * (v div 262144 mod 64) + v mod 262144"
    using mod_mult2_eq [of v 262144 64] by simp
  show ?thesis by (simp only: a b c)
qed

lemma bytes_of_value:
  fixes a b c :: nat
  assumes "b < 256" "c < 256"
  shows "(a * 65536 + b * 256 + c) div 65536 = a"
    and "(a * 65536 + b * 256 + c) div 256 mod 256 = b"
    and "(a * 65536 + b * 256 + c) mod 256 = c"
proof -
  have r: "b * 256 + c < 65536" using assms by simp
  have "(b * 256 + c + a * 65536) div 65536 = a + (b * 256 + c) div 65536"
    by (rule div_mult_self1) simp
  with r show "(a * 65536 + b * 256 + c) div 65536 = a"
    by (simp add: add.commute add.left_commute)
  have "(c + (a * 256 + b) * 256) div 256 = (a * 256 + b) + c div 256"
    by (rule div_mult_self1) simp
  then have d: "(a * 65536 + b * 256 + c) div 256 = a * 256 + b"
    using assms by (simp add: algebra_simps)
  show "(a * 65536 + b * 256 + c) div 256 mod 256 = b"
    using assms by (simp add: d)
  have "(c + (a * 256 + b) * 256) mod 256 = c mod 256"
    by (rule mod_mult_self1)
  then show "(a * 65536 + b * 256 + c) mod 256 = c"
    using assms by (simp add: algebra_simps)
qed

lemma sextets_inject:
  fixes a b c a' b' c' :: nat
  assumes bounds: "a < 256" "b < 256" "c < 256" "a' < 256" "b' < 256" "c' < 256"
    and s0: "(a * 65536 + b * 256 + c) div 262144 mod 64 =
             (a' * 65536 + b' * 256 + c') div 262144 mod 64"
    and s1: "(a * 65536 + b * 256 + c) div 4096 mod 64 =
             (a' * 65536 + b' * 256 + c') div 4096 mod 64"
    and s2: "(a * 65536 + b * 256 + c) div 64 mod 64 =
             (a' * 65536 + b' * 256 + c') div 64 mod 64"
    and s3: "(a * 65536 + b * 256 + c) mod 64 = (a' * 65536 + b' * 256 + c') mod 64"
  shows "a = a' \<and> b = b' \<and> c = c'"
proof -
  let ?v = "a * 65536 + b * 256 + c"
  let ?v' = "a' * 65536 + b' * 256 + c'"
  have "?v mod 16777216 = ?v' mod 16777216"
    by (simp only: sextets_value [of ?v] sextets_value [of ?v'] s0 s1 s2 s3)
  moreover have "?v < 16777216" "?v' < 16777216"
    using bounds by simp_all
  ultimately have eq: "?v = ?v'" by simp
  have "a = ?v div 65536"
    using bounds by (simp only: bytes_of_value)
  also have "\<dots> = ?v' div 65536"
    by (simp only: eq)
  also have "\<dots> = a'"
    using bounds by (simp only: bytes_of_value)
  finally have a: "a = a'" .
  have "b = ?v div 256 mod 256"
    using bounds by (simp only: bytes_of_value)
  also have "\<dots> = ?v' div 256 mod 256"
    by (simp only: eq)
  also have "\<dots> = b'"
    using bounds by (simp only: bytes_of_value)
  finally have b: "b = b'" .
  have "c = ?v mod 256"
    using bounds by (simp only: bytes_of_value)
  also have "\<dots> = ?v' mod 256"
    by (simp only: eq)
  also have "\<dots> = c'"
    using bounds by (simp only: bytes_of_value)
  finally have c: "c = c'" .
  from a b c show ?thesis by blast
qed

lemma low_digits_zero:
  fixes a b :: nat
  shows "(a * 65536 + b * 256) mod 64 = 0"
    and "(a * 65536) div 64 mod 64 = 0"
    and "(a * 65536) mod 64 = 0"
proof -
  have "a * 65536 + b * 256 = 64 * (a * 1024 + b * 4)" by simp
  then show "(a * 65536 + b * 256) mod 64 = 0" by (simp only: mod_mult_self1_is_0)
  have "a * 65536 = 64 * (64 * (a * 16))" by simp
  then have "(a * 65536) div 64 = 64 * (a * 16)" by simp
  then show "(a * 65536) div 64 mod 64 = 0" by (simp only: mod_mult_self1_is_0)
  have "a * 65536 = 64 * (a * 1024)" by simp
  then show "(a * 65536) mod 64 = 0" by (simp only: mod_mult_self1_is_0)
qed

lemma byte_bound: "unat (b :: byte) < 256"
  using unsigned_less [of b, where 'a = nat] by simp

lemma quad_inject:
  fixes b0 b1 b2 c0 c1 c2 :: byte
  assumes "enc6 ((unat b0 * 65536 + unat b1 * 256 + unat b2) div 262144) =
           enc6 ((unat c0 * 65536 + unat c1 * 256 + unat c2) div 262144)"
    and "enc6 ((unat b0 * 65536 + unat b1 * 256 + unat b2) div 4096) =
         enc6 ((unat c0 * 65536 + unat c1 * 256 + unat c2) div 4096)"
    and "(unat b0 * 65536 + unat b1 * 256 + unat b2) div 64 mod 64 =
         (unat c0 * 65536 + unat c1 * 256 + unat c2) div 64 mod 64"
    and "(unat b0 * 65536 + unat b1 * 256 + unat b2) mod 64 =
         (unat c0 * 65536 + unat c1 * 256 + unat c2) mod 64"
  shows "b0 = c0 \<and> b1 = c1 \<and> b2 = c2"
proof -
  have "unat b0 = unat c0 \<and> unat b1 = unat c1 \<and> unat b2 = unat c2"
    by (rule sextets_inject [OF byte_bound byte_bound byte_bound byte_bound byte_bound byte_bound
          enc6_inject [OF assms(1)] enc6_inject [OF assms(2)] assms(3) assms(4)])
  then show ?thesis by (simp add: word_unat_eq_iff)
qed

lemma pair_inject:
  fixes b0 b1 c0 c1 :: byte
  assumes e0: "enc6 ((unat b0 * 65536 + unat b1 * 256) div 262144) =
               enc6 ((unat c0 * 65536 + unat c1 * 256) div 262144)"
    and e1: "enc6 ((unat b0 * 65536 + unat b1 * 256) div 4096) =
             enc6 ((unat c0 * 65536 + unat c1 * 256) div 4096)"
    and e2: "enc6 ((unat b0 * 65536 + unat b1 * 256) div 64) =
             enc6 ((unat c0 * 65536 + unat c1 * 256) div 64)"
  shows "b0 = c0 \<and> b1 = c1"
proof -
  have "unat b0 = unat c0 \<and> unat b1 = unat c1 \<and> (0 :: nat) = 0"
  proof (rule sextets_inject)
    show "unat b0 < 256" "unat b1 < 256" "unat c0 < 256" "unat c1 < 256"
      by (rule byte_bound)+
    show "(0 :: nat) < 256" "(0 :: nat) < 256" by simp_all
    show "(unat b0 * 65536 + unat b1 * 256 + 0) div 262144 mod 64 =
        (unat c0 * 65536 + unat c1 * 256 + 0) div 262144 mod 64"
      using enc6_inject [OF e0] by (simp only: add_0_right)
    show "(unat b0 * 65536 + unat b1 * 256 + 0) div 4096 mod 64 =
        (unat c0 * 65536 + unat c1 * 256 + 0) div 4096 mod 64"
      using enc6_inject [OF e1] by (simp only: add_0_right)
    show "(unat b0 * 65536 + unat b1 * 256 + 0) div 64 mod 64 =
        (unat c0 * 65536 + unat c1 * 256 + 0) div 64 mod 64"
      using enc6_inject [OF e2] by (simp only: add_0_right)
    show "(unat b0 * 65536 + unat b1 * 256 + 0) mod 64 =
        (unat c0 * 65536 + unat c1 * 256 + 0) mod 64"
      by (simp only: add_0_right low_digits_zero)
  qed
  then show ?thesis by (simp add: word_unat_eq_iff)
qed

lemma single_inject:
  fixes b0 c0 :: byte
  assumes e0: "enc6 (unat b0 * 65536 div 262144) = enc6 (unat c0 * 65536 div 262144)"
    and e1: "enc6 (unat b0 * 65536 div 4096) = enc6 (unat c0 * 65536 div 4096)"
  shows "b0 = c0"
proof -
  have "unat b0 = unat c0 \<and> (0 :: nat) = 0 \<and> (0 :: nat) = 0"
  proof (rule sextets_inject)
    show "unat b0 < 256" "unat c0 < 256"
      by (rule byte_bound)+
    show "(0 :: nat) < 256" "(0 :: nat) < 256" "(0 :: nat) < 256" "(0 :: nat) < 256"
      by simp_all
    show "(unat b0 * 65536 + 0 * 256 + 0) div 262144 mod 64 =
        (unat c0 * 65536 + 0 * 256 + 0) div 262144 mod 64"
      using enc6_inject [OF e0] by (simp only: add_0_right mult_zero_left)
    show "(unat b0 * 65536 + 0 * 256 + 0) div 4096 mod 64 =
        (unat c0 * 65536 + 0 * 256 + 0) div 4096 mod 64"
      using enc6_inject [OF e1] by (simp only: add_0_right mult_zero_left)
    show "(unat b0 * 65536 + 0 * 256 + 0) div 64 mod 64 =
        (unat c0 * 65536 + 0 * 256 + 0) div 64 mod 64"
      by (simp only: add_0_right mult_zero_left low_digits_zero)
    show "(unat b0 * 65536 + 0 * 256 + 0) mod 64 = (unat c0 * 65536 + 0 * 256 + 0) mod 64"
      by (simp only: add_0_right mult_zero_left low_digits_zero)
  qed
  then show ?thesis by (simp add: word_unat_eq_iff)
qed

lemma EncodeToString_inject:
  "length src = length src' \<Longrightarrow> EncodeToString src = EncodeToString src' \<Longrightarrow> src = src'"
proof (induction src arbitrary: src' rule: EncodeToString.induct)
  case 1
  then show ?case by simp
next
  case (2 b0)
  then obtain c0 where src': "src' = [c0]"
    by (cases src') auto
  from 2 have e: "enc6 (unat b0 * 65536 div 262144) = enc6 (unat c0 * 65536 div 262144)"
    "enc6 (unat b0 * 65536 div 4096) = enc6 (unat c0 * 65536 div 4096)"
    by (simp_all add: src' Let_def)
  from single_inject [OF e] show ?case by (simp add: src')
next
  case (3 b0 b1)
  then obtain c0 c1 where src': "src' = [c0, c1]"
    by (cases src'; cases "tl src'") auto
  from 3 have e: "enc6 ((unat b0 * 65536 + unat b1 * 256) div 262144) =
      enc6 ((unat c0 * 65536 + unat c1 * 256) div 262144)"
    "enc6 ((unat b0 * 65536 + unat b1 * 256) div 4096) =
      enc6 ((unat c0 * 65536 + unat c1 * 256) div 4096)"
    "enc6 ((unat b0 * 65536 + unat b1 * 256) div 64) =
      enc6 ((unat c0 * 65536 + unat c1 * 256) div 64)"
    by (simp_all add: src' Let_def)
  from pair_inject [OF e] show ?case by (simp add: src')
next
  case (4 b0 b1 b2 src)
  then obtain c0 c1 c2 rest where src': "src' = c0 # c1 # c2 # rest"
    by (cases src'; cases "tl src'"; cases "tl (tl src')") auto
  from 4(2) have len: "length src = length rest"
    by (simp add: src')
  from 4(3) have e: "enc6 ((unat b0 * 65536 + unat b1 * 256 + unat b2) div 262144) =
      enc6 ((unat c0 * 65536 + unat c1 * 256 + unat c2) div 262144)"
    "enc6 ((unat b0 * 65536 + unat b1 * 256 + unat b2) div 4096) =
      enc6 ((unat c0 * 65536 + unat c1 * 256 + unat c2) div 4096)"
    "enc6 ((unat b0 * 65536 + unat b1 * 256 + unat b2) div 64) =
      enc6 ((unat c0 * 65536 + unat c1 * 256 + unat c2) div 64)"
    "enc6 (unat b0 * 65536 + unat b1 * 256 + unat b2) =
      enc6 (unat c0 * 65536 + unat c1 * 256 + unat c2)"
    and tail: "EncodeToString src = EncodeToString rest"
    by (simp_all add: src' Let_def)
  have "b0 = c0 \<and> b1 = c1 \<and> b2 = c2"
    by (rule quad_inject [OF e(1) e(2) enc6_inject [OF e(3)] enc6_inject [OF e(4)]])
  moreover from 4(1) [OF refl len tail] have "src = rest" .
  ultimately show ?case by (simp add: src')
qed

lemma rand_Read_length: "length (fst (rand_Read n outcome)) = n"
  by (cases outcome) (simp_all add: rand_Read_def)

lemma rand_Read_bytes: "length bs = n \<Longrightarrow> rand_Read n (RandBytes bs) = (bs, None)"
  by (simp add: rand_Read_def)

lemma GenerateTrackingID_bytes:
  "GenerateTrackingID (RandBytes bs) = (EncodeToString (fst (rand_Read 32 (RandBytes bs))), None)"
  by (simp add: GenerateTrackingID_def rand_Read_def)

text \<open>The encoding of the bytes 1 to 32, and of bytes that reach the last two digits.\<close>

lemma EncodeToString_examples:
  "EncodeToString [1, 2, 3, 4, 5, 6, 7, 8, 9, 10, 11, 12, 13, 14, 15, 16, 17, 18, 19, 20, 21,
      22, 23, 24, 25, 26, 27, 28, 29, 30, 31, 32] =
     ''AQIDBAUGBwgJCgsMDQ4PEBESExQVFhcYGRobHB0eHyA=''"
  "EncodeToString [0xfb, 0xff, 0xfe, 0x3e, 0x3f] = ''-__-Pj8=''"
  "EncodeToString [0xff] = ''_w==''"
  by (simp_all add: Let_def enc6_def encodeURL_def StdPadding_def)

text \<open>
  C9. The identifier is made from the 32 bytes drawn from the entropy source. When the
  source fails, the error is returned with the empty string, and in no other case is an
  error returned. Otherwise the identifier has the fixed width of 44 characters: 43
  characters of the URL-safe alphabet (letters, digits, \<open>-\<close> and \<open>_\<close>) followed by the one
  padding character \<open>=\<close>, always in that place and not a character of the alphabet.
  Distinct draws of 32 bytes give distinct identifiers, so the text carries all 256 bits
  drawn.
\<close>

theorem GenerateTrackingID_contract:
  "GenerateTrackingID RandFailed = ([], Some EntropyUnavailable) \<and>
   (\<forall>bs. snd (GenerateTrackingID (RandBytes bs)) = None \<and>
         length (fst (GenerateTrackingID (RandBytes bs))) = 44 \<and>
         set (take 43 (fst (GenerateTrackingID (RandBytes bs)))) \<subseteq> set encodeURL \<and>
         fst (GenerateTrackingID (RandBytes bs)) ! 43 = StdPadding) \<and>
   StdPadding \<notin> set encodeURL \<and>
   (\<forall>bs bs'. length bs = 32 \<and> length bs' = 32 \<and>
         fst (GenerateTrackingID (RandBytes bs)) = fst (GenerateTrackingID (RandBytes bs')) \<longrightarrow>
         bs = bs')"
proof -
  have failed: "GenerateTrackingID RandFailed = ([], Some EntropyUnavailable)"
    by (simp add: GenerateTrackingID_def rand_Read_def)
  have form: "snd (GenerateTrackingID (RandBytes bs)) = None \<and>
      length (fst (GenerateTrackingID (RandBytes bs))) = 44 \<and>
      set (take 43 (fst (GenerateTrackingID (RandBytes bs)))) \<subseteq> set encodeURL \<and>
      fst (GenerateTrackingID (RandBytes bs)) ! 43 = StdPadding" for bs
  proof -
    let ?b = "fst (rand_Read 32 (RandBytes bs))"
    have len: "length ?b = 32" by (rule rand_Read_length)
    then have "length ?b mod 3 = 2" by simp
    then obtain body where body: "EncodeToString ?b = body @ [StdPadding]"
      "set body \<subseteq> set encodeURL"
      using EncodeToString_padded by blast
    have "length (EncodeToString ?b) = 44"
      by (simp add: length_EncodeToString len)
    with body have "length body = 43" by simp
    with body show ?thesis
      by (simp add: GenerateTrackingID_bytes nth_append)
  qed
  have inject: "bs = bs'"
    if "length bs = 32" "length bs' = 32"
      "fst (GenerateTrackingID (RandBytes bs)) = fst (GenerateTrackingID (RandBytes bs'))"
    for bs bs'
  proof -
    from that have "EncodeToString bs = EncodeToString bs'"
      by (simp add: GenerateTrackingID_bytes rand_Read_bytes)
    with that show ?thesis
      by (simp add: EncodeToString_inject)
  qed
  from failed form StdPadding_not_alphabet inject show ?thesis by blast
qed

theorem GenerateTrackingID_contract_witness:
  "length (replicate 32 (0 :: byte)) = 32 \<and> length (replicate 32 (1 :: byte)) = 32 \<and>
   length (fst (GenerateTrackingID (RandBytes (replicate 32 0)))) = 44 \<and>
   fst (GenerateTrackingID (RandBytes (replicate 32 0))) \<noteq>
   fst (GenerateTrackingID (RandBytes (replicate 32 1)))"
proof -
  have l: "length (replicate 32 (0 :: byte)) = 32" "length (replicate 32 (1 :: byte)) = 32"
    by simp_all
  have ne: "replicate 32 (0 :: byte) \<noteq> replicate 32 1"
    by simp
  from GenerateTrackingID_contract l ne show ?thesis
    by blast
qed

end
